theory Spec2Isabelle
  imports Main "HOL-Library.List_Lexorder" "HOL-Library.Multiset"
begin

section \<open>Text, JSON values and dictionaries\<close>

text \<open>
  A Python \<open>str\<close> is a sequence of Unicode code points: \<open>len\<close> counts code points and
  comparison goes code point by code point. A code point is a natural number here,
  and \<open>py_str\<close> reads a literal of the source (ASCII) as such a sequence. The order
  \<open>\<le>\<close> on \<open>str\<close> is the lexicographic one of \<open>HOL-Library.List_Lexorder\<close>; \<open>str_le\<close> is
  the comparison as Python performs it, and the two are shown equal below.
\<close>

type_synonym str = "nat list"

definition py_str :: "string \<Rightarrow> str" where
  "py_str cs = map of_char cs"

fun str_le :: "str \<Rightarrow> str \<Rightarrow> bool" where
  "str_le [] ys = True"
| "str_le (x # xs) [] = False"
| "str_le (x # xs) (y # ys) =
     (if x < y then True else if y < x then False else str_le xs ys)"

text \<open>\<open>s.startswith(p)\<close>.\<close>

definition startswith :: "str \<Rightarrow> str \<Rightarrow> bool" where
  "startswith s p = (take (length p) s = p)"

datatype json =
    JNull
  | JBool bool
  | JNum int
  | JStr str
  | JArr "json list"
  | JObj "(str \<times> json) list"

text \<open>
  A \<open>dict\<close> is an association list in insertion order, read with \<open>map_of\<close>
  (\<open>d.get(k)\<close>); it is falsy exactly when it is empty.
\<close>

type_synonym 'v dict = "(str \<times> 'v) list"

section \<open>models.py and schemas.py\<close>

text \<open>
  The columns of \<open>NotificationType\<close> with their declared types: \<open>deprecated_reason\<close>
  is the only nullable one. The column \<open>id\<close> is \<open>nt_id\<close> here, \<open>id\<close> being the identity
  function of HOL. A \<open>datetime\<close> is a point in time, in microseconds.
\<close>

type_synonym datetime = int

record NotificationType =
  nt_id :: int
  key :: str
  descriptions :: "str dict"
  available :: bool
  deprecated :: bool
  deprecated_reason :: "str option"
  created_at :: datetime
  updated_at :: datetime

text \<open>
  \<open>NotificationType.get_description\<close> reads \<open>self.descriptions\<close> only, which is its
  first argument here: \<open>None\<close> on an object whose attribute was never set. In
  \<open>a or b\<close> Python takes \<open>b\<close> when \<open>a\<close> is \<open>None\<close> or the empty string.
\<close>

definition get_description :: "str dict option \<Rightarrow> str \<Rightarrow> str" where
  "get_description self_descriptions lang =
     (case self_descriptions of
        None \<Rightarrow> []
      | Some d \<Rightarrow>
          if d = [] then []
          else (case map_of d lang of
                  Some a \<Rightarrow> if a \<noteq> [] then a
                            else (case map_of d (py_str ''en'') of
                                    Some b \<Rightarrow> if b \<noteq> [] then b else []
                                  | None \<Rightarrow> [])
                | None \<Rightarrow> (case map_of d (py_str ''en'') of
                             Some b \<Rightarrow> if b \<noteq> [] then b else []
                           | None \<Rightarrow> [])))"

record NotificationTypeOut =
  key :: str
  descriptions :: "str dict"
  available :: bool
  deprecated :: bool
  deprecated_reason :: "str option"
  nt_id :: int
  created_at :: "datetime option"
  updated_at :: "datetime option"

record NotificationTypeListResponse =
  notification_types :: "NotificationTypeOut list"

record ErrorResponse =
  detail :: str
  errors :: "json list option"

text \<open>\<open>ErrorResponse.dict()\<close>: every field, unset optional ones as \<open>None\<close>.\<close>

definition ErrorResponse_dict :: "ErrorResponse \<Rightarrow> json" where
  "ErrorResponse_dict e =
     JObj [(py_str ''detail'', JStr (detail e)),
           (py_str ''errors'', (case errors e of None \<Rightarrow> JNull | Some es \<Rightarrow> JArr es))]"

section \<open>Requests, responses and exceptions\<close>

text \<open>
  The decoded token payload is a JSON object. \<open>state_user\<close> is \<open>request.state.user\<close>,
  \<open>None\<close> while the attribute does not exist; \<open>query_lang\<close> is the query parameter
  \<open>lang\<close>, \<open>None\<close> when the caller omits it.
\<close>

type_synonym payload = "json dict"

record Request =
  http_method :: str
  path :: str
  query_lang :: "str option"
  state_user :: "payload option"

text \<open>
  A handler either returns a \<open>NotificationTypeListResponse\<close>, which the framework
  sends with status 200, or a \<open>JSONResponse\<close> with its status and content.
\<close>

datatype Response =
    Returned NotificationTypeListResponse
  | JSONResponse nat json

fun status_code :: "Response \<Rightarrow> nat" where
  "status_code (Returned r) = 200"
| "status_code (JSONResponse st c) = st"

text \<open>
  The exceptions the code raises or catches, by class, each with its message.
  \<open>InvalidTokenError\<close> stands for an instance of that class or of a subclass other than
  \<open>ExpiredSignatureError\<close>, and \<open>Exception\<close> for an instance of no class named here.
  A call that may raise has a value of type \<open>exn + 'a\<close>, \<open>Inl\<close> being the exception.
\<close>

datatype exn =
    SQLAlchemyError str
  | ExpiredSignatureError str
  | InvalidTokenError str
  | HTTPException nat str
  | RequestValidationError "json list"
  | Exception str

section \<open>middleware/auth.py\<close>

text \<open>
  The scheme and the token come from the \<open>Authorization\<close> header, whose text is
  decoded as Latin-1: one \<open>char\<close> per code point. \<open>lower\<close> is \<open>str.lower\<close> on such
  text: the letters A to Z and the capital letters from U+00C0 to U+00DE (the
  multiplication sign U+00D7 is no letter) move up by 32.
\<close>

record HTTPAuthorizationCredentials =
  scheme :: string
  credentials :: string

definition lower_char :: "char \<Rightarrow> char" where
  "lower_char c =
     (let n = (of_char c :: nat)
      in if (65 \<le> n \<and> n \<le> 90) \<or> (192 \<le> n \<and> n \<le> 222 \<and> n \<noteq> 215)
         then char_of (n + 32) else c)"

definition lower :: "string \<Rightarrow> string" where
  "lower cs = map lower_char cs"

text \<open>
  What the middleware takes from outside the repository: \<open>self.bearer\<close>, the
  \<open>HTTPBearer(auto_error=False)\<close> instance that reads the credentials off a request
  (\<open>None\<close> when there are none); the two settings read from the environment; and
  \<open>jwt.decode(token, key, algorithms)\<close>, which returns the payload or raises.
\<close>

record AuthMiddleware =
  bearer :: "Request \<Rightarrow> HTTPAuthorizationCredentials option"
  JWT_SECRET :: str
  JWT_ALGORITHM :: str
  jwt_decode :: "string \<Rightarrow> str \<Rightarrow> str list \<Rightarrow> exn + payload"

definition unauthorized :: "string \<Rightarrow> Response" where
  "unauthorized msg = JSONResponse 401 (JObj [(py_str ''detail'', JStr (py_str msg))])"

definition dispatch :: "AuthMiddleware \<Rightarrow> Request \<Rightarrow> (Request \<Rightarrow> Response) \<Rightarrow> Response" where
  "dispatch self request call_next =
     (if startswith (path request) (py_str ''/health'') \<or>
         startswith (path request) (py_str ''/docs'') \<or>
         startswith (path request) (py_str ''/openapi.json'') \<or>
         startswith (path request) (py_str ''/redoc'')
      then call_next request
      else
        (case bearer self request of
           None \<Rightarrow> unauthorized ''Authentication required. Please log in.''
         | Some creds \<Rightarrow>
             if lower (scheme creds) \<noteq> ''bearer''
             then unauthorized ''Authentication required. Please log in.''
             else
               (case jwt_decode self (credentials creds) (JWT_SECRET self) [JWT_ALGORITHM self] of
                  Inr payload \<Rightarrow> call_next (request\<lparr> state_user := Some payload \<rparr>)
                | Inl (ExpiredSignatureError e) \<Rightarrow>
                    unauthorized ''Session expired. Please log in again.''
                | Inl (InvalidTokenError e) \<Rightarrow>
                    unauthorized ''Invalid authentication token.''
                | Inl e \<Rightarrow>
                    unauthorized ''Authentication failed. Please log in.'')))"

text \<open>
  \<open>getattr(request.state, "user", None)\<close>, then \<open>if not user\<close>: \<open>None\<close> and the empty
  dictionary are both falsy.
\<close>

definition get_current_user :: "Request \<Rightarrow> exn + payload" where
  "get_current_user request =
     (case state_user request of
        None \<Rightarrow> Inl (HTTPException 401 (py_str ''Authentication required. Please log in.''))
      | Some user \<Rightarrow>
          if user = []
          then Inl (HTTPException 401 (py_str ''Authentication required. Please log in.''))
          else Inr user)"

section \<open>routes/notifications.py\<close>

text \<open>
  The session is what \<open>db.query(NotificationType).all()\<close> does on it: it returns the
  stored rows or raises.
\<close>

type_synonym Session = "exn + NotificationType list"

definition nt_out :: "NotificationType \<Rightarrow> NotificationTypeOut" where
  "nt_out nt =
     \<lparr> key = NotificationType.key nt,
       descriptions = NotificationType.descriptions nt,
       available = NotificationType.available nt,
       deprecated = NotificationType.deprecated nt,
       deprecated_reason = NotificationType.deprecated_reason nt,
       nt_id = NotificationType.nt_id nt,
       created_at = Some (NotificationType.created_at nt),
       updated_at = Some (NotificationType.updated_at nt) \<rparr>"

text \<open>The \<open>for\<close> loop over the fetched rows, \<open>result_types\<close> being the list it appends to.\<close>

fun result_types_loop ::
  "NotificationType list \<Rightarrow> NotificationTypeOut list \<Rightarrow> NotificationTypeOut list" where
  "result_types_loop [] result_types = result_types"
| "result_types_loop (nt # rest) result_types =
     (if \<not> NotificationType.available nt then result_types_loop rest result_types
      else result_types_loop rest (result_types @ [nt_out nt]))"

text \<open>
  \<open>list.sort(key=...)\<close> is a stable sort, which fixes its result; \<open>sort_key\<close> is the
  stable sort of the HOL library.
\<close>

definition get_notification_types :: "Request \<Rightarrow> Session \<Rightarrow> payload \<Rightarrow> str \<Rightarrow> Response" where
  "get_notification_types request db current_user lang =
     (case db of
        Inr fetched \<Rightarrow>
          Returned \<lparr> notification_types =
            sort_key key (result_types_loop fetched []) \<rparr>
      | Inl (SQLAlchemyError e) \<Rightarrow>
          JSONResponse 500 (ErrorResponse_dict
            \<lparr> detail = py_str ''Failed to fetch notification types. Please try again later.'',
              errors = None \<rparr>)
      | Inl e \<Rightarrow>
          JSONResponse 500 (ErrorResponse_dict
            \<lparr> detail = py_str ''Internal server error. Please try again later.'',
              errors = None \<rparr>))"

text \<open>
  The declaration \<open>lang: str = Query("en", min_length=2, max_length=5)\<close>: the default
  when the parameter is absent, else the value if its length is within the bounds;
  otherwise the framework raises a \<open>RequestValidationError\<close>, whose list of errors
  \<open>exc_errors\<close> is the framework's.
\<close>

definition Query_lang :: "json list \<Rightarrow> str option \<Rightarrow> exn + str" where
  "Query_lang exc_errors q =
     (case q of
        None \<Rightarrow> Inr (py_str ''en'')
      | Some v \<Rightarrow>
          if length v < 2 \<or> 5 < length v then Inl (RequestValidationError exc_errors)
          else Inr v)"

section \<open>main.py\<close>

text \<open>The three exception handlers of the application, chosen by the class of the exception.\<close>

fun exception_handler :: "exn \<Rightarrow> Response" where
  "exception_handler (HTTPException st d) = JSONResponse st (JObj [(py_str ''detail'', JStr d)])"
| "exception_handler (RequestValidationError errs) =
     JSONResponse 422 (JObj [(py_str ''detail'', JStr (py_str ''Invalid request data.'')),
                             (py_str ''errors'', JArr errs)])"
| "exception_handler e =
     JSONResponse 500
       (JObj [(py_str ''detail'', JStr (py_str ''Internal server error. Please try again later.''))])"

definition health_check :: json where
  "health_check = JObj [(py_str ''status'', JStr (py_str ''ok''))]"

text \<open>
  The route \<open>GET /api/notifications/\<close>: the framework resolves the dependency
  \<open>get_current_user\<close> and the query parameter, hands an exception to its handler, and
  otherwise calls the endpoint function.
\<close>

definition notifications_route :: "json list \<Rightarrow> Session \<Rightarrow> Request \<Rightarrow> Response" where
  "notifications_route exc_errors db request =
     (case get_current_user request of
        Inl e \<Rightarrow> exception_handler e
      | Inr current_user \<Rightarrow>
          (case Query_lang exc_errors (query_lang request) of
             Inl e \<Rightarrow> exception_handler e
           | Inr lang \<Rightarrow> get_notification_types request db current_user lang))"

text \<open>
  The routes declared in the source; \<open>other\<close> is what the framework does with any other
  request (its documentation pages, 404, 405).
\<close>

definition router ::
  "(Request \<Rightarrow> Response) \<Rightarrow> json list \<Rightarrow> Session \<Rightarrow> Request \<Rightarrow> Response" where
  "router other exc_errors db request =
     (if http_method request = py_str ''GET'' \<and> path request = py_str ''/health''
      then JSONResponse 200 health_check
      else if http_method request = py_str ''GET'' \<and> path request = py_str ''/api/notifications/''
      then notifications_route exc_errors db request
      else other request)"

text \<open>
  The application: the authentication middleware in front of the routes. (The HTTPS
  redirection and CORS middleware of the framework sit between the two and pass an
  HTTPS request of the allowed origin on as it is.)
\<close>

definition app ::
  "AuthMiddleware \<Rightarrow> (Request \<Rightarrow> Response) \<Rightarrow> json list \<Rightarrow> Session \<Rightarrow> Request \<Rightarrow> Response" where
  "app self other exc_errors db request = dispatch self request (router other exc_errors db)"

section \<open>The records of the test suite\<close>

definition email_alert :: NotificationType where
  "email_alert =
     \<lparr> NotificationType.nt_id = 1, NotificationType.key = py_str ''email_alert'',
       NotificationType.descriptions =
         [(py_str ''en'', py_str ''Email alerts''), (py_str ''fr'', py_str ''Alertes par email'')],
       NotificationType.available = True, NotificationType.deprecated = False,
       NotificationType.deprecated_reason = None,
       NotificationType.created_at = 0, NotificationType.updated_at = 0 \<rparr>"

definition sms_alert :: NotificationType where
  "sms_alert =
     \<lparr> NotificationType.nt_id = 2, NotificationType.key = py_str ''sms_alert'',
       NotificationType.descriptions =
         [(py_str ''en'', py_str ''SMS alerts''), (py_str ''fr'', py_str ''Alertes SMS'')],
       NotificationType.available = True, NotificationType.deprecated = True,
       NotificationType.deprecated_reason = Some (py_str ''Replaced by push notifications''),
       NotificationType.created_at = 0, NotificationType.updated_at = 0 \<rparr>"

definition push_alert :: NotificationType where
  "push_alert =
     \<lparr> NotificationType.nt_id = 3, NotificationType.key = py_str ''push_alert'',
       NotificationType.descriptions =
         [(py_str ''en'', py_str ''Push notifications''), (py_str ''fr'', py_str ''Notifications push'')],
       NotificationType.available = True, NotificationType.deprecated = False,
       NotificationType.deprecated_reason = None,
       NotificationType.created_at = 0, NotificationType.updated_at = 0 \<rparr>"

definition legacy_alert :: NotificationType where
  "legacy_alert =
     \<lparr> NotificationType.nt_id = 4, NotificationType.key = py_str ''legacy_alert'',
       NotificationType.descriptions = [(py_str ''en'', py_str ''Legacy alerts'')],
       NotificationType.available = False, NotificationType.deprecated = True,
       NotificationType.deprecated_reason = Some (py_str ''Deprecated and unavailable''),
       NotificationType.created_at = 0, NotificationType.updated_at = 0 \<rparr>"

definition test_rows :: "NotificationType list" where
  "test_rows = [email_alert, sms_alert, push_alert, legacy_alert]"

text \<open>The payload of \<open>create_jwt_token\<close>, and a request for the listing that carries it.\<close>

definition test_payload :: payload where
  "test_payload =
     [(py_str ''sub'', JStr (py_str ''1'')), (py_str ''username'', JStr (py_str ''testuser'')),
      (py_str ''exp'', JNum 9999999999)]"

definition listing_request :: Request where
  "listing_request =
     \<lparr> http_method = py_str ''GET'', path = py_str ''/api/notifications/'',
       query_lang = None, state_user = None \<rparr>"

definition health_request :: Request where
  "health_request =
     \<lparr> http_method = py_str ''GET'', path = py_str ''/health'',
       query_lang = None, state_user = None \<rparr>"

text \<open>The framework's answer to a request for a route that does not exist.\<close>

definition not_found :: "Request \<Rightarrow> Response" where
  "not_found request = exception_handler (HTTPException 404 (py_str ''Not Found''))"

text \<open>
  A middleware for the examples: every request carries the token \<open>tok\<close> under the
  scheme \<open>Bearer\<close>, and the decoder accepts or rejects by the token's text.
\<close>

definition test_decode :: "string \<Rightarrow> str \<Rightarrow> str list \<Rightarrow> exn + payload" where
  "test_decode token secret algorithms =
     (if token = ''valid'' then Inr test_payload
      else if token = ''empty'' then Inr []
      else if token = ''expired'' then Inl (ExpiredSignatureError (py_str ''Signature has expired''))
      else if token = ''broken'' then Inl (Exception (py_str ''boom''))
      else Inl (InvalidTokenError (py_str ''Not enough segments'')))"

definition test_middleware :: "string \<Rightarrow> AuthMiddleware" where
  "test_middleware tok =
     \<lparr> bearer = (\<lambda>request. Some \<lparr> scheme = ''Bearer'', credentials = tok \<rparr>),
       JWT_SECRET = py_str ''change_this_secret'', JWT_ALGORITHM = py_str ''HS256'',
       jwt_decode = test_decode \<rparr>"

definition no_credentials :: AuthMiddleware where
  "no_credentials = (test_middleware [])\<lparr> bearer := (\<lambda>request. None) \<rparr>"

section \<open>Properties\<close>

lemma result_types_loop_eq:
  "result_types_loop rows acc = acc @ map nt_out (filter NotificationType.available rows)"
  by (induction rows arbitrary: acc) simp_all

lemma set_result_types_loop:
  "set (result_types_loop rows []) = nt_out ` {nt \<in> set rows. NotificationType.available nt}"
  by (auto simp: result_types_loop_eq)

lemma nt_out_fields:
  "nt_id (nt_out nt) = NotificationType.nt_id nt"
  "key (nt_out nt) = NotificationType.key nt"
  "descriptions (nt_out nt) = NotificationType.descriptions nt"
  "deprecated (nt_out nt) = NotificationType.deprecated nt"
  "deprecated_reason (nt_out nt) = NotificationType.deprecated_reason nt"
  by (simp_all add: nt_out_def)

text \<open>Python's comparison of two strings is the lexicographic order on code points.\<close>

lemma str_le_iff: "str_le a b \<longleftrightarrow> a \<le> b"
  by (induction a b rule: str_le.induct) auto

text \<open>The listing on the records of the test suite.\<close>

lemma test_listing:
  "get_notification_types request (Inr test_rows) current_user lang
     = Returned \<lparr> notification_types = [nt_out email_alert, nt_out push_alert, nt_out sms_alert] \<rparr>"
  by (simp add: get_notification_types_def test_rows_def email_alert_def sms_alert_def
      push_alert_def legacy_alert_def nt_out_def py_str_def)

lemma listing_request_not_allow_listed:
  "\<not> (startswith (path listing_request) (py_str ''/health'') \<or>
      startswith (path listing_request) (py_str ''/docs'') \<or>
      startswith (path listing_request) (py_str ''/openapi.json'') \<or>
      startswith (path listing_request) (py_str ''/redoc''))"
  by (simp add: listing_request_def startswith_def py_str_def)

lemma lower_Bearer: "lower ''Bearer'' = ''bearer''" "lower ''Basic'' \<noteq> ''bearer''"
  by (simp_all add: lower_def lower_char_def char_of_eq_iff)

text \<open>The route of the listing, with and without a principal on the request.\<close>

lemma route_authenticated:
  "state_user request = Some user \<Longrightarrow> user \<noteq> [] \<Longrightarrow>
   Query_lang exc_errors (query_lang request) = Inr lang \<Longrightarrow>
   notifications_route exc_errors db request = get_notification_types request db user lang"
  by (simp add: notifications_route_def get_current_user_def)

lemma route_unauthenticated:
  "state_user request = None \<or> state_user request = Some [] \<Longrightarrow>
   notifications_route exc_errors db request =
     JSONResponse 401 (JObj [(py_str ''detail'', JStr (py_str ''Authentication required. Please log in.''))])"
  by (auto simp: notifications_route_def get_current_user_def)

text \<open>The items of the listing and the available rows, field by field.\<close>

lemma mset_listing_fields:
  "mset (map (\<lambda>out. (nt_id out, key out, descriptions out, available out, deprecated out,
                        deprecated_reason out, created_at out, updated_at out))
          (sort_key key (result_types_loop rows [])))
   = mset (map (\<lambda>nt. (NotificationType.nt_id nt, NotificationType.key nt,
                        NotificationType.descriptions nt, NotificationType.available nt,
                        NotificationType.deprecated nt, NotificationType.deprecated_reason nt,
                        Some (NotificationType.created_at nt), Some (NotificationType.updated_at nt)))
            (filter NotificationType.available rows))"
proof -
  let ?f = "\<lambda>out. (nt_id out, key out, descriptions out, available out, deprecated out,
                        deprecated_reason out, created_at out, updated_at out)"
  have "mset (map ?f (sort_key key (result_types_loop rows [])))
          = image_mset ?f (mset (sort_key key (result_types_loop rows [])))"
    by simp
  also have "\<dots> = image_mset ?f (mset (map nt_out (filter NotificationType.available rows)))"
    by (simp add: result_types_loop_eq)
  also have "\<dots> = mset (map (?f \<circ> nt_out) (filter NotificationType.available rows))"
    by (simp add: multiset.map_comp)
  also have "?f \<circ> nt_out = (\<lambda>nt. (NotificationType.nt_id nt, NotificationType.key nt,
                        NotificationType.descriptions nt, NotificationType.available nt,
                        NotificationType.deprecated nt, NotificationType.deprecated_reason nt,
                        Some (NotificationType.created_at nt), Some (NotificationType.updated_at nt)))"
    by (rule ext) (simp add: nt_out_def)
  finally show ?thesis .
qed

subsection \<open>The listing shows the available records, all of them and no other\<close>

text \<open>
  C1. Whatever rows the store returns, \<open>get_notification_types\<close> returns a list whose
  items, field by field (id, key, descriptions, available, deprecated,
  deprecated_reason and the two timestamps), are exactly the stored rows with
  \<open>available = True\<close>, each as often as it is stored: a stored row has an item with
  its fields in the list if and only if it is available, and every item of the list is
  available and has the fields of an available stored row.
\<close>

theorem listing_exactly_available:
  "\<exists>outs. get_notification_types request (Inr rows) current_user lang
            = Returned \<lparr> notification_types = outs \<rparr>
     \<and> mset (map (\<lambda>out. (nt_id out, key out, descriptions out, available out, deprecated out,
                            deprecated_reason out, created_at out, updated_at out)) outs)
         = mset (map (\<lambda>nt. (NotificationType.nt_id nt, NotificationType.key nt,
                            NotificationType.descriptions nt, NotificationType.available nt,
                            NotificationType.deprecated nt, NotificationType.deprecated_reason nt,
                            Some (NotificationType.created_at nt),
                            Some (NotificationType.updated_at nt)))
                  (filter NotificationType.available rows))
     \<and> (\<forall>nt \<in> set rows.
           (\<exists>out \<in> set outs.
              nt_id out = NotificationType.nt_id nt \<and> key out = NotificationType.key nt \<and>
              descriptions out = NotificationType.descriptions nt \<and>
              available out = NotificationType.available nt \<and>
              deprecated out = NotificationType.deprecated nt \<and>
              deprecated_reason out = NotificationType.deprecated_reason nt \<and>
              created_at out = Some (NotificationType.created_at nt) \<and>
              updated_at out = Some (NotificationType.updated_at nt))
           = NotificationType.available nt)
     \<and> (\<forall>out \<in> set outs. available out \<and>
           (\<exists>nt \<in> set rows. NotificationType.available nt \<and>
              nt_id out = NotificationType.nt_id nt \<and> key out = NotificationType.key nt \<and>
              descriptions out = NotificationType.descriptions nt \<and>
              deprecated out = NotificationType.deprecated nt \<and>
              deprecated_reason out = NotificationType.deprecated_reason nt \<and>
              created_at out = Some (NotificationType.created_at nt) \<and>
              updated_at out = Some (NotificationType.updated_at nt)))"
proof -
  let ?outs = "sort_key key (result_types_loop rows [])"
  have s: "set ?outs = nt_out ` {nt \<in> set rows. NotificationType.available nt}"
    by (simp add: set_result_types_loop)
  have present: "\<exists>out \<in> set ?outs.
              nt_id out = NotificationType.nt_id nt \<and> key out = NotificationType.key nt \<and>
              descriptions out = NotificationType.descriptions nt \<and>
              available out = NotificationType.available nt \<and>
              deprecated out = NotificationType.deprecated nt \<and>
              deprecated_reason out = NotificationType.deprecated_reason nt \<and>
              created_at out = Some (NotificationType.created_at nt) \<and>
              updated_at out = Some (NotificationType.updated_at nt)"
    if "nt \<in> set rows" "NotificationType.available nt" for nt
  proof -
    from that have "nt_out nt \<in> set ?outs"
      unfolding s by blast
    then show ?thesis
      by (rule bexI [rotated]) (simp add: nt_out_def)
  qed
  have origin: "available out \<and>
           (\<exists>nt \<in> set rows. NotificationType.available nt \<and>
              nt_id out = NotificationType.nt_id nt \<and> key out = NotificationType.key nt \<and>
              descriptions out = NotificationType.descriptions nt \<and>
              deprecated out = NotificationType.deprecated nt \<and>
              deprecated_reason out = NotificationType.deprecated_reason nt \<and>
              created_at out = Some (NotificationType.created_at nt) \<and>
              updated_at out = Some (NotificationType.updated_at nt))"
    if "out \<in> set ?outs" for out
  proof -
    from that obtain nt where nt: "nt \<in> set rows" "NotificationType.available nt" "out = nt_out nt"
      unfolding s by blast
    from nt(2,3) have "available out"
      by (simp add: nt_out_def)
    moreover from nt have "\<exists>nt \<in> set rows. NotificationType.available nt \<and>
              nt_id out = NotificationType.nt_id nt \<and> key out = NotificationType.key nt \<and>
              descriptions out = NotificationType.descriptions nt \<and>
              deprecated out = NotificationType.deprecated nt \<and>
              deprecated_reason out = NotificationType.deprecated_reason nt \<and>
              created_at out = Some (NotificationType.created_at nt) \<and>
              updated_at out = Some (NotificationType.updated_at nt)"
      by (intro bexI [of _ nt]) (simp_all add: nt_out_def)
    ultimately show ?thesis
      by simp
  qed
  have absent: "NotificationType.available nt"
    if "out \<in> set ?outs" "available out = NotificationType.available nt" for out nt
    using origin [OF that(1)] that(2) by simp
  have r: "get_notification_types request (Inr rows) current_user lang
            = Returned \<lparr> notification_types = ?outs \<rparr>"
    by (simp add: get_notification_types_def)
  show ?thesis
  proof (intro exI [of _ ?outs] conjI ballI)
    show "get_notification_types request (Inr rows) current_user lang
            = Returned \<lparr> notification_types = ?outs \<rparr>"
      by (rule r)
  next
    show "mset (map (\<lambda>out. (nt_id out, key out, descriptions out, available out, deprecated out,
                            deprecated_reason out, created_at out, updated_at out)) ?outs)
         = mset (map (\<lambda>nt. (NotificationType.nt_id nt, NotificationType.key nt,
                            NotificationType.descriptions nt, NotificationType.available nt,
                            NotificationType.deprecated nt, NotificationType.deprecated_reason nt,
                            Some (NotificationType.created_at nt),
                            Some (NotificationType.updated_at nt)))
                  (filter NotificationType.available rows))"
      by (rule mset_listing_fields)
  next
    fix nt assume "nt \<in> set rows"
    then show "(\<exists>out \<in> set ?outs.
              nt_id out = NotificationType.nt_id nt \<and> key out = NotificationType.key nt \<and>
              descriptions out = NotificationType.descriptions nt \<and>
              available out = NotificationType.available nt \<and>
              deprecated out = NotificationType.deprecated nt \<and>
              deprecated_reason out = NotificationType.deprecated_reason nt \<and>
              created_at out = Some (NotificationType.created_at nt) \<and>
              updated_at out = Some (NotificationType.updated_at nt))
           = NotificationType.available nt"
      using present [of nt] absent [of _ nt] by blast
  next
    fix out assume "out \<in> set ?outs"
    then show "available out"
      using origin by blast
  next
    fix out assume "out \<in> set ?outs"
    then show "\<exists>nt \<in> set rows. NotificationType.available nt \<and>
              nt_id out = NotificationType.nt_id nt \<and> key out = NotificationType.key nt \<and>
              descriptions out = NotificationType.descriptions nt \<and>
              deprecated out = NotificationType.deprecated nt \<and>
              deprecated_reason out = NotificationType.deprecated_reason nt \<and>
              created_at out = Some (NotificationType.created_at nt) \<and>
              updated_at out = Some (NotificationType.updated_at nt)"
      using origin by blast
  qed
qed

theorem listing_exactly_available_witness:
  "\<exists>outs. get_notification_types listing_request (Inr test_rows) test_payload (py_str ''fr'')
            = Returned \<lparr> notification_types = outs \<rparr>
     \<and> (\<exists>out. out \<in> set outs \<and> nt_id out = 2 \<and> key out = py_str ''sms_alert'' \<and>
            available out \<and> deprecated out \<and>
            deprecated_reason out = Some (py_str ''Replaced by push notifications''))
     \<and> map nt_id outs = [1, 3, 2]
     \<and> map key outs = [py_str ''email_alert'', py_str ''push_alert'', py_str ''sms_alert'']
     \<and> py_str ''legacy_alert'' \<notin> set (map key outs)"
proof -
  from listing_exactly_available [of listing_request test_rows test_payload "py_str ''fr''"]
  obtain outs where
    r: "get_notification_types listing_request (Inr test_rows) test_payload (py_str ''fr'')
          = Returned \<lparr> notification_types = outs \<rparr>"
    and m: "\<forall>nt \<in> set test_rows.
           (\<exists>out \<in> set outs.
              nt_id out = NotificationType.nt_id nt \<and> key out = NotificationType.key nt \<and>
              descriptions out = NotificationType.descriptions nt \<and>
              available out = NotificationType.available nt \<and>
              deprecated out = NotificationType.deprecated nt \<and>
              deprecated_reason out = NotificationType.deprecated_reason nt \<and>
              created_at out = Some (NotificationType.created_at nt) \<and>
              updated_at out = Some (NotificationType.updated_at nt))
           = NotificationType.available nt"
    by blast
  have "sms_alert \<in> set test_rows"
    by (simp add: test_rows_def)
  with m have "(\<exists>out \<in> set outs.
              nt_id out = NotificationType.nt_id sms_alert \<and> key out = NotificationType.key sms_alert \<and>
              descriptions out = NotificationType.descriptions sms_alert \<and>
              available out = NotificationType.available sms_alert \<and>
              deprecated out = NotificationType.deprecated sms_alert \<and>
              deprecated_reason out = NotificationType.deprecated_reason sms_alert \<and>
              created_at out = Some (NotificationType.created_at sms_alert) \<and>
              updated_at out = Some (NotificationType.updated_at sms_alert))
           = NotificationType.available sms_alert"
    by (rule bspec)
  then have a: "\<exists>out. out \<in> set outs \<and> nt_id out = 2 \<and> key out = py_str ''sms_alert'' \<and>
            available out \<and> deprecated out \<and>
            deprecated_reason out = Some (py_str ''Replaced by push notifications'')"
    by (simp add: sms_alert_def) blast
  from r have o: "outs = [nt_out email_alert, nt_out push_alert, nt_out sms_alert]"
    by (simp add: test_listing)
  have b: "map nt_id outs = [1, 3, 2]"
    "map key outs = [py_str ''email_alert'', py_str ''push_alert'', py_str ''sms_alert'']"
    by (simp_all add: o nt_out_fields email_alert_def push_alert_def sms_alert_def)
  then have c: "py_str ''legacy_alert'' \<notin> set (map key outs)"
    by (simp add: py_str_def)
  from r a b c show ?thesis
    by (intro exI [of _ outs] conjI)
qed

subsection \<open>The listing is sorted by key\<close>

text \<open>
  C2. Whatever rows the store returns, the keys of the list that
  \<open>get_notification_types\<close> returns are in ascending order, the order being Python's
  comparison of strings, code point by code point.
\<close>

theorem listing_sorted_by_key:
  "\<exists>outs. get_notification_types request (Inr rows) current_user lang
            = Returned \<lparr> notification_types = outs \<rparr>
     \<and> sorted_wrt str_le (map key outs)"
proof -
  have "sorted (map key (sort_key key (result_types_loop rows [])))"
    by (rule sorted_sort_key)
  then have "sorted_wrt str_le (map key (sort_key key (result_types_loop rows [])))"
    by (simp add: sorted_wrt_iff_nth_less str_le_iff sorted_iff_nth_mono_less)
  then show ?thesis
    by (simp add: get_notification_types_def)
qed

theorem listing_sorted_by_key_witness:
  "\<exists>outs. get_notification_types listing_request (Inr test_rows) test_payload (py_str ''en'')
            = Returned \<lparr> notification_types = outs \<rparr>
     \<and> sorted_wrt str_le (map key outs)
     \<and> map key outs = [py_str ''email_alert'', py_str ''push_alert'', py_str ''sms_alert'']"
  using listing_sorted_by_key [of listing_request test_rows test_payload "py_str ''en''"]
  by (simp add: test_listing nt_out_fields email_alert_def push_alert_def sms_alert_def py_str_def)

subsection \<open>The description of a record in one language\<close>

text \<open>
  C3, as the claim states it, fails: a key that is present with the empty string as its
  value is passed over. With \<open>{"fr": "", "en": "English"}\<close> and \<open>lang = "fr"\<close> the key
  \<open>fr\<close> is present, its value is the empty string, and \<open>get_description\<close> returns
  \<open>"English"\<close>.
\<close>

theorem get_description_presence_counterexample:
  "map_of [(py_str ''fr'', []), (py_str ''en'', py_str ''English'')] (py_str ''fr'') = Some []
   \<and> get_description (Some [(py_str ''fr'', []), (py_str ''en'', py_str ''English'')]) (py_str ''fr'')
       = py_str ''English''
   \<and> py_str ''English'' \<noteq> []"
  by (simp add: get_description_def py_str_def)

text \<open>
  C3, amended. For every descriptions dictionary, a missing one included, and every
  \<open>lang\<close>, \<open>get_description\<close> returns \<open>descriptions[lang]\<close> if that key is present with a
  value other than the empty string; otherwise \<open>descriptions["en"]\<close> if that key is
  present; otherwise the empty string. It is a total function: it never raises.
\<close>

theorem get_description_fallback:
  "get_description None lang = []
   \<and> (\<forall>a. map_of d lang = Some a \<and> a \<noteq> [] \<longrightarrow> get_description (Some d) lang = a)
   \<and> (\<forall>b. (map_of d lang = None \<or> map_of d lang = Some []) \<and> map_of d (py_str ''en'') = Some b
          \<longrightarrow> get_description (Some d) lang = b)
   \<and> ((map_of d lang = None \<or> map_of d lang = Some []) \<and> map_of d (py_str ''en'') = None
          \<longrightarrow> get_description (Some d) lang = [])"
  by (auto simp: get_description_def split: option.splits)

theorem get_description_fallback_witness:
  "get_description (Some (NotificationType.descriptions email_alert)) (py_str ''fr'')
     = py_str ''Alertes par email''
   \<and> get_description (Some (NotificationType.descriptions email_alert)) (py_str ''de'')
     = py_str ''Email alerts''
   \<and> get_description (Some [(py_str ''fr'', []), (py_str ''en'', py_str ''English'')]) (py_str ''fr'')
     = py_str ''English''
   \<and> get_description (Some [(py_str ''fr'', py_str ''Alertes'')]) (py_str ''de'') = []
   \<and> get_description None (py_str ''fr'') = []"
  using get_description_fallback [of "py_str ''fr''" "NotificationType.descriptions email_alert"]
    get_description_fallback [of "py_str ''de''" "NotificationType.descriptions email_alert"]
    get_description_fallback [of "py_str ''fr''" "[(py_str ''fr'', []), (py_str ''en'', py_str ''English'')]"]
    get_description_fallback [of "py_str ''de''" "[(py_str ''fr'', py_str ''Alertes'')]"]
  by (simp add: email_alert_def py_str_def)

subsection \<open>The access gate\<close>

text \<open>
  C4. For a request whose path starts with none of the four exempt prefixes,
  \<open>dispatch\<close> answers with status 401 and the body \<open>{"detail": ...}\<close>, the detail being
  "Authentication required. Please log in."
  when there are no credentials or their scheme is not \<open>bearer\<close> in lower case, with
  "Session expired. Please log in again." when decoding raises
  \<open>ExpiredSignatureError\<close>, with "Invalid authentication token." when it raises another
  \<open>InvalidTokenError\<close>, and with "Authentication failed. Please log in." when it raises
  anything else; when decoding returns a payload, the payload is stored on the request
  and the request goes on to \<open>call_next\<close>.
\<close>

theorem dispatch_rejections:
  assumes "\<not> (startswith (path request) (py_str ''/health'') \<or>
         startswith (path request) (py_str ''/docs'') \<or>
         startswith (path request) (py_str ''/openapi.json'') \<or>
         startswith (path request) (py_str ''/redoc''))"
  shows "(bearer self request = None \<longrightarrow>
           dispatch self request call_next
             = JSONResponse 401 (JObj [(py_str ''detail'', JStr (py_str ''Authentication required. Please log in.''))]))
    \<and> (\<forall>creds. bearer self request = Some creds \<and> lower (scheme creds) \<noteq> ''bearer'' \<longrightarrow>
           dispatch self request call_next
             = JSONResponse 401 (JObj [(py_str ''detail'', JStr (py_str ''Authentication required. Please log in.''))]))
    \<and> (\<forall>creds. bearer self request = Some creds \<and> lower (scheme creds) = ''bearer'' \<longrightarrow>
         (let decoded = jwt_decode self (credentials creds) (JWT_SECRET self) [JWT_ALGORITHM self] in
          (\<forall>e. decoded = Inl (ExpiredSignatureError e) \<longrightarrow>
             dispatch self request call_next
               = JSONResponse 401 (JObj [(py_str ''detail'', JStr (py_str ''Session expired. Please log in again.''))]))
        \<and> (\<forall>e. decoded = Inl (InvalidTokenError e) \<longrightarrow>
             dispatch self request call_next
               = JSONResponse 401 (JObj [(py_str ''detail'', JStr (py_str ''Invalid authentication token.''))]))
        \<and> (\<forall>x. decoded = Inl x \<and> (\<forall>e. x \<noteq> ExpiredSignatureError e) \<and>
                 (\<forall>e. x \<noteq> InvalidTokenError e) \<longrightarrow>
             dispatch self request call_next
               = JSONResponse 401 (JObj [(py_str ''detail'', JStr (py_str ''Authentication failed. Please log in.''))]))
        \<and> (\<forall>payload. decoded = Inr payload \<longrightarrow>
             dispatch self request call_next = call_next (request\<lparr> state_user := Some payload \<rparr>))))"
  using assms by (auto simp: dispatch_def Let_def unauthorized_def split: exn.splits)

theorem dispatch_rejections_witness:
  "dispatch no_credentials listing_request not_found
     = JSONResponse 401 (JObj [(py_str ''detail'', JStr (py_str ''Authentication required. Please log in.''))])
   \<and> dispatch ((test_middleware ''valid'')\<lparr> bearer := (\<lambda>request. Some \<lparr> scheme = ''Basic'', credentials = ''valid'' \<rparr>) \<rparr>)
        listing_request not_found
     = JSONResponse 401 (JObj [(py_str ''detail'', JStr (py_str ''Authentication required. Please log in.''))])
   \<and> dispatch (test_middleware ''expired'') listing_request not_found
     = JSONResponse 401 (JObj [(py_str ''detail'', JStr (py_str ''Session expired. Please log in again.''))])
   \<and> dispatch (test_middleware ''garbage'') listing_request not_found
     = JSONResponse 401 (JObj [(py_str ''detail'', JStr (py_str ''Invalid authentication token.''))])
   \<and> dispatch (test_middleware ''broken'') listing_request not_found
     = JSONResponse 401 (JObj [(py_str ''detail'', JStr (py_str ''Authentication failed. Please log in.''))])
   \<and> dispatch (test_middleware ''valid'') listing_request (notifications_route [] (Inr test_rows))
     = notifications_route [] (Inr test_rows) (listing_request\<lparr> state_user := Some test_payload \<rparr>)
   \<and> status_code (dispatch (test_middleware ''expired'') listing_request not_found) = 401"
proof -
  note gate = dispatch_rejections [OF listing_request_not_allow_listed]
  have "dispatch no_credentials listing_request not_found
     = JSONResponse 401 (JObj [(py_str ''detail'', JStr (py_str ''Authentication required. Please log in.''))])"
    using gate [of no_credentials not_found]
    by (simp add: no_credentials_def test_middleware_def)
  moreover have "dispatch ((test_middleware ''valid'')\<lparr> bearer := (\<lambda>request. Some \<lparr> scheme = ''Basic'', credentials = ''valid'' \<rparr>) \<rparr>)
        listing_request not_found
     = JSONResponse 401 (JObj [(py_str ''detail'', JStr (py_str ''Authentication required. Please log in.''))])"
    using gate [of "(test_middleware ''valid'')\<lparr> bearer := (\<lambda>request. Some \<lparr> scheme = ''Basic'', credentials = ''valid'' \<rparr>) \<rparr>" not_found]
    by (simp add: test_middleware_def lower_Bearer)
  moreover have expired: "dispatch (test_middleware ''expired'') listing_request not_found
     = JSONResponse 401 (JObj [(py_str ''detail'', JStr (py_str ''Session expired. Please log in again.''))])"
    using gate [of "test_middleware ''expired''" not_found]
    by (simp add: test_middleware_def lower_Bearer test_decode_def)
  moreover have "dispatch (test_middleware ''garbage'') listing_request not_found
     = JSONResponse 401 (JObj [(py_str ''detail'', JStr (py_str ''Invalid authentication token.''))])"
    using gate [of "test_middleware ''garbage''" not_found]
    by (simp add: test_middleware_def lower_Bearer test_decode_def)
  moreover have "dispatch (test_middleware ''broken'') listing_request not_found
     = JSONResponse 401 (JObj [(py_str ''detail'', JStr (py_str ''Authentication failed. Please log in.''))])"
    using gate [of "test_middleware ''broken''" not_found]
    by (simp add: test_middleware_def lower_Bearer test_decode_def)
  moreover have "dispatch (test_middleware ''valid'') listing_request (notifications_route [] (Inr test_rows))
     = notifications_route [] (Inr test_rows) (listing_request\<lparr> state_user := Some test_payload \<rparr>)"
    using gate [of "test_middleware ''valid''" "notifications_route [] (Inr test_rows)"]
    by (simp add: test_middleware_def lower_Bearer test_decode_def)
  moreover have "status_code (dispatch (test_middleware ''expired'') listing_request not_found) = 401"
    by (simp add: expired)
  ultimately show ?thesis
    by (intro conjI)
qed

text \<open>
  C5. A request whose path starts with \<open>/health\<close>, \<open>/docs\<close>, \<open>/openapi.json\<close> or
  \<open>/redoc\<close> goes through \<open>dispatch\<close> to \<open>call_next\<close> unchanged, whatever its
  credentials; and \<open>GET /health\<close> is answered with status 200 and the body
  \<open>{"status": "ok"}\<close>, whatever the credentials and the state of the store.
\<close>

theorem allow_list_passes:
  "(startswith (path request) (py_str ''/health'') \<or>
    startswith (path request) (py_str ''/docs'') \<or>
    startswith (path request) (py_str ''/openapi.json'') \<or>
    startswith (path request) (py_str ''/redoc'')
      \<longrightarrow> dispatch self request call_next = call_next request)
   \<and> (http_method request = py_str ''GET'' \<and> path request = py_str ''/health''
      \<longrightarrow> app self other exc_errors db request
            = JSONResponse 200 (JObj [(py_str ''status'', JStr (py_str ''ok''))]))"
  by (auto simp: dispatch_def app_def router_def health_check_def startswith_def py_str_def)

theorem allow_list_passes_witness:
  "bearer no_credentials health_request = None
   \<and> app no_credentials not_found [] (Inl (Exception (py_str ''down''))) health_request
       = JSONResponse 200 (JObj [(py_str ''status'', JStr (py_str ''ok''))])
   \<and> dispatch no_credentials (health_request\<lparr> path := py_str ''/docs/oauth2-redirect'' \<rparr>) not_found
       = not_found (health_request\<lparr> path := py_str ''/docs/oauth2-redirect'' \<rparr>)"
  using allow_list_passes [of health_request no_credentials not_found not_found "[]"
      "Inl (Exception (py_str ''down''))"]
    allow_list_passes [of "health_request\<lparr> path := py_str ''/docs/oauth2-redirect'' \<rparr>"
      no_credentials not_found]
  by (simp add: health_request_def no_credentials_def startswith_def py_str_def)

subsection \<open>The language parameter\<close>

text \<open>
  C6. For two values of \<open>lang\<close> of 2 to 5 characters, the route of the listing gives the
  same response on the same request and store. With a principal on the request and rows
  from the store, that response is the list, and every item of it has the id, the key
  and the whole \<open>descriptions\<close> dictionary of a stored row, every available row
  having such an item.
\<close>

theorem lang_has_no_effect:
  assumes "2 \<le> length l1" "length l1 \<le> 5" "2 \<le> length l2" "length l2 \<le> 5"
  shows "notifications_route exc_errors db (request\<lparr> query_lang := Some l1 \<rparr>)
           = notifications_route exc_errors db (request\<lparr> query_lang := Some l2 \<rparr>)
     \<and> (\<forall>user rows. state_user request = Some user \<and> user \<noteq> [] \<longrightarrow>
          (\<exists>outs.
             notifications_route exc_errors (Inr rows) (request\<lparr> query_lang := Some l1 \<rparr>)
               = Returned \<lparr> notification_types = outs \<rparr>
           \<and> notifications_route exc_errors (Inr rows) (request\<lparr> query_lang := Some l2 \<rparr>)
               = Returned \<lparr> notification_types = outs \<rparr>
           \<and> (\<forall>nt \<in> set rows. NotificationType.available nt \<longrightarrow>
                 (\<exists>out \<in> set outs. nt_id out = NotificationType.nt_id nt \<and>
                    key out = NotificationType.key nt \<and>
                    descriptions out = NotificationType.descriptions nt))
           \<and> (\<forall>out \<in> set outs. \<exists>nt \<in> set rows. nt_id out = NotificationType.nt_id nt \<and>
                    key out = NotificationType.key nt \<and>
                    descriptions out = NotificationType.descriptions nt)))"
proof -
  have q: "Query_lang exc_errors (Some l1) = Inr l1" "Query_lang exc_errors (Some l2) = Inr l2"
    using assms by (simp_all add: Query_lang_def)
  have eq: "notifications_route exc_errors db (request\<lparr> query_lang := Some l1 \<rparr>)
           = notifications_route exc_errors db (request\<lparr> query_lang := Some l2 \<rparr>)" for db
  proof (cases "state_user request = None \<or> state_user request = Some []")
    case True
    then show ?thesis
      by (simp add: route_unauthenticated)
  next
    case False
    then obtain user where "state_user request = Some user" "user \<noteq> []"
      by auto
    then have "notifications_route exc_errors db (request\<lparr> query_lang := Some l1 \<rparr>)
                 = get_notification_types (request\<lparr> query_lang := Some l1 \<rparr>) db user l1"
      and "notifications_route exc_errors db (request\<lparr> query_lang := Some l2 \<rparr>)
                 = get_notification_types (request\<lparr> query_lang := Some l2 \<rparr>) db user l2"
      using q by (simp_all add: route_authenticated)
    then show ?thesis
      by (simp add: get_notification_types_def)
  qed
  have out: "\<exists>outs.
             notifications_route exc_errors (Inr rows) (request\<lparr> query_lang := Some l1 \<rparr>)
               = Returned \<lparr> notification_types = outs \<rparr>
           \<and> (\<forall>nt \<in> set rows. NotificationType.available nt \<longrightarrow>
                 (\<exists>out \<in> set outs. nt_id out = NotificationType.nt_id nt \<and>
                    key out = NotificationType.key nt \<and>
                    descriptions out = NotificationType.descriptions nt))
           \<and> (\<forall>out \<in> set outs. \<exists>nt \<in> set rows. nt_id out = NotificationType.nt_id nt \<and>
                    key out = NotificationType.key nt \<and>
                    descriptions out = NotificationType.descriptions nt)"
    if "state_user request = Some user" "user \<noteq> []" for user rows
    using that q(1)
    by (simp add: route_authenticated [where user = user and lang = l1] get_notification_types_def
        set_result_types_loop nt_out_fields) blast
  show ?thesis
  proof (intro conjI allI impI)
    show "notifications_route exc_errors db (request\<lparr> query_lang := Some l1 \<rparr>)
           = notifications_route exc_errors db (request\<lparr> query_lang := Some l2 \<rparr>)"
      by (rule eq)
  next
    fix user rows
    assume u: "state_user request = Some user \<and> user \<noteq> []"
    then obtain outs where o: "notifications_route exc_errors (Inr rows) (request\<lparr> query_lang := Some l1 \<rparr>)
               = Returned \<lparr> notification_types = outs \<rparr>"
      "\<forall>nt \<in> set rows. NotificationType.available nt \<longrightarrow>
                 (\<exists>out \<in> set outs. nt_id out = NotificationType.nt_id nt \<and>
                    key out = NotificationType.key nt \<and>
                    descriptions out = NotificationType.descriptions nt)"
      "\<forall>out \<in> set outs. \<exists>nt \<in> set rows. nt_id out = NotificationType.nt_id nt \<and>
                    key out = NotificationType.key nt \<and>
                    descriptions out = NotificationType.descriptions nt"
      using out [of user rows] by blast
    from o(1) have "notifications_route exc_errors (Inr rows) (request\<lparr> query_lang := Some l2 \<rparr>)
               = Returned \<lparr> notification_types = outs \<rparr>"
      by (simp add: eq [of "Inr rows"])
    with o show "\<exists>outs.
             notifications_route exc_errors (Inr rows) (request\<lparr> query_lang := Some l1 \<rparr>)
               = Returned \<lparr> notification_types = outs \<rparr>
           \<and> notifications_route exc_errors (Inr rows) (request\<lparr> query_lang := Some l2 \<rparr>)
               = Returned \<lparr> notification_types = outs \<rparr>
           \<and> (\<forall>nt \<in> set rows. NotificationType.available nt \<longrightarrow>
                 (\<exists>out \<in> set outs. nt_id out = NotificationType.nt_id nt \<and>
                    key out = NotificationType.key nt \<and>
                    descriptions out = NotificationType.descriptions nt))
           \<and> (\<forall>out \<in> set outs. \<exists>nt \<in> set rows. nt_id out = NotificationType.nt_id nt \<and>
                    key out = NotificationType.key nt \<and>
                    descriptions out = NotificationType.descriptions nt)"
      by blast
  qed
qed

theorem lang_has_no_effect_witness:
  "notifications_route [] (Inr test_rows)
      (listing_request\<lparr> state_user := Some test_payload, query_lang := Some (py_str ''en'') \<rparr>)
     = Returned \<lparr> notification_types = [nt_out email_alert, nt_out push_alert, nt_out sms_alert] \<rparr>
   \<and> notifications_route [] (Inr test_rows)
      (listing_request\<lparr> state_user := Some test_payload, query_lang := Some (py_str ''fr'') \<rparr>)
     = Returned \<lparr> notification_types = [nt_out email_alert, nt_out push_alert, nt_out sms_alert] \<rparr>
   \<and> descriptions (nt_out email_alert)
     = [(py_str ''en'', py_str ''Email alerts''), (py_str ''fr'', py_str ''Alertes par email'')]"
proof -
  have len: "2 \<le> length (py_str ''en'')" "length (py_str ''en'') \<le> 5"
    "2 \<le> length (py_str ''fr'')" "length (py_str ''fr'') \<le> 5"
    by (simp_all add: py_str_def)
  have u: "state_user (listing_request\<lparr> state_user := Some test_payload \<rparr>) = Some test_payload"
    "test_payload \<noteq> []"
    by (simp_all add: test_payload_def)
  from lang_has_no_effect [OF len, of "[]" "Inr test_rows" "listing_request\<lparr> state_user := Some test_payload \<rparr>"]
  have same: "notifications_route [] (Inr test_rows)
      (listing_request\<lparr> state_user := Some test_payload, query_lang := Some (py_str ''en'') \<rparr>)
    = notifications_route [] (Inr test_rows)
      (listing_request\<lparr> state_user := Some test_payload, query_lang := Some (py_str ''fr'') \<rparr>)"
    by simp
  have "Query_lang [] (Some (py_str ''fr'')) = Inr (py_str ''fr'')"
    using len by (simp add: Query_lang_def)
  then have "notifications_route [] (Inr test_rows)
      (listing_request\<lparr> state_user := Some test_payload, query_lang := Some (py_str ''fr'') \<rparr>)
     = Returned \<lparr> notification_types = [nt_out email_alert, nt_out push_alert, nt_out sms_alert] \<rparr>"
    using u(2) by (simp add: route_authenticated [where user = test_payload and lang = "py_str ''fr''"] test_listing)
  moreover have "descriptions (nt_out email_alert)
     = [(py_str ''en'', py_str ''Email alerts''), (py_str ''fr'', py_str ''Alertes par email'')]"
    by (simp add: nt_out_fields email_alert_def)
  ultimately show ?thesis
    using same by simp
qed

subsection \<open>Failure of the store\<close>

text \<open>
  C7. When the query raises an \<open>SQLAlchemyError\<close>, \<open>get_notification_types\<close> answers
  with status 500 and the detail "Failed to fetch notification types. Please try again
  later."; the body is this one whatever the message of the exception, which is
  therefore no part of it.
\<close>

theorem store_failure_response:
  "get_notification_types request (Inl (SQLAlchemyError cause)) current_user lang =
     JSONResponse 500
       (JObj [(py_str ''detail'', JStr (py_str ''Failed to fetch notification types. Please try again later.'')),
              (py_str ''errors'', JNull)])"
  by (simp add: get_notification_types_def ErrorResponse_dict_def)

theorem store_failure_response_witness:
  "get_notification_types listing_request
      (Inl (SQLAlchemyError (py_str ''connection refused''))) test_payload (py_str ''en'') =
     JSONResponse 500
       (JObj [(py_str ''detail'', JStr (py_str ''Failed to fetch notification types. Please try again later.'')),
              (py_str ''errors'', JNull)])"
  by (rule store_failure_response)

subsection \<open>Deprecated records\<close>

text \<open>
  C8. For every stored row that is available and deprecated, the list has an item with
  the id and key of the row, marked deprecated, whose \<open>deprecated_reason\<close> is the
  stored one, \<open>None\<close> included; and when the keys of the stored rows are distinct, as
  the unique column makes them, every item with the key of the row has the stored
  reason.
\<close>

theorem deprecated_reason_preserved:
  "\<exists>outs. get_notification_types request (Inr rows) current_user lang
            = Returned \<lparr> notification_types = outs \<rparr>
     \<and> (\<forall>nt \<in> set rows.
           NotificationType.available nt \<and> NotificationType.deprecated nt \<longrightarrow>
             (\<exists>out \<in> set outs.
                nt_id out = NotificationType.nt_id nt \<and> key out = NotificationType.key nt \<and>
                deprecated out \<and> deprecated_reason out = NotificationType.deprecated_reason nt)
           \<and> (distinct (map NotificationType.key rows) \<longrightarrow>
                (\<forall>out \<in> set outs. key out = NotificationType.key nt \<longrightarrow>
                   deprecated_reason out = NotificationType.deprecated_reason nt)))"
proof -
  let ?outs = "sort_key key (result_types_loop rows [])"
  have "\<exists>out \<in> set ?outs.
          nt_id out = NotificationType.nt_id nt \<and> key out = NotificationType.key nt \<and>
          deprecated out \<and> deprecated_reason out = NotificationType.deprecated_reason nt"
    if "nt \<in> set rows" "NotificationType.available nt" "NotificationType.deprecated nt" for nt
  proof -
    from that have "nt_out nt \<in> set ?outs"
      by (simp add: set_result_types_loop)
    with that show ?thesis
      by (intro bexI [of _ "nt_out nt"]) (simp_all add: nt_out_fields)
  qed
  moreover have "deprecated_reason out = NotificationType.deprecated_reason nt"
    if "nt \<in> set rows" "distinct (map NotificationType.key rows)"
       "out \<in> set ?outs" "key out = NotificationType.key nt" for nt out
  proof -
    from that(3) obtain nt' where nt': "nt' \<in> set rows" "out = nt_out nt'"
      by (auto simp: set_result_types_loop)
    with that(4) have "NotificationType.key nt' = NotificationType.key nt"
      by (simp add: nt_out_fields)
    with that(1,2) nt'(1) have "nt' = nt"
      by (meson distinct_map inj_onD)
    with nt'(2) show ?thesis
      by (simp add: nt_out_fields)
  qed
  ultimately show ?thesis
    by (simp add: get_notification_types_def)
qed

theorem deprecated_reason_preserved_witness:
  "\<exists>outs. get_notification_types listing_request (Inr test_rows) test_payload (py_str ''en'')
            = Returned \<lparr> notification_types = outs \<rparr>
     \<and> (\<exists>out. out \<in> set outs \<and> key out = py_str ''sms_alert'' \<and> deprecated out \<and>
            deprecated_reason out = Some (py_str ''Replaced by push notifications''))
     \<and> distinct (map NotificationType.key test_rows)
     \<and> deprecated_reason (outs ! 2) = Some (py_str ''Replaced by push notifications'')"
proof -
  from deprecated_reason_preserved [of listing_request test_rows test_payload "py_str ''en''"]
  obtain outs where
    r: "get_notification_types listing_request (Inr test_rows) test_payload (py_str ''en'')
          = Returned \<lparr> notification_types = outs \<rparr>"
    and p: "\<forall>nt \<in> set test_rows.
           NotificationType.available nt \<and> NotificationType.deprecated nt \<longrightarrow>
             (\<exists>out \<in> set outs.
                nt_id out = NotificationType.nt_id nt \<and> key out = NotificationType.key nt \<and>
                deprecated out \<and> deprecated_reason out = NotificationType.deprecated_reason nt)
           \<and> (distinct (map NotificationType.key test_rows) \<longrightarrow>
                (\<forall>out \<in> set outs. key out = NotificationType.key nt \<longrightarrow>
                   deprecated_reason out = NotificationType.deprecated_reason nt))"
    by blast
  have s: "sms_alert \<in> set test_rows" "NotificationType.available sms_alert"
    "NotificationType.deprecated sms_alert"
    "NotificationType.key sms_alert = py_str ''sms_alert''"
    "NotificationType.deprecated_reason sms_alert = Some (py_str ''Replaced by push notifications'')"
    by (simp_all add: test_rows_def sms_alert_def)
  have d: "distinct (map NotificationType.key test_rows)"
    by (simp add: test_rows_def email_alert_def sms_alert_def push_alert_def legacy_alert_def
        py_str_def)
  from r have o: "outs = [nt_out email_alert, nt_out push_alert, nt_out sms_alert]"
    by (simp add: test_listing)
  from p s(1-3) have
    e: "\<exists>out \<in> set outs.
          nt_id out = NotificationType.nt_id sms_alert \<and> key out = NotificationType.key sms_alert \<and>
          deprecated out \<and> deprecated_reason out = NotificationType.deprecated_reason sms_alert"
    and a: "distinct (map NotificationType.key test_rows) \<longrightarrow>
          (\<forall>out \<in> set outs. key out = NotificationType.key sms_alert \<longrightarrow>
             deprecated_reason out = NotificationType.deprecated_reason sms_alert)"
    by blast+
  from a d have "\<forall>out \<in> set outs. key out = py_str ''sms_alert'' \<longrightarrow>
             deprecated_reason out = Some (py_str ''Replaced by push notifications'')"
    by (simp add: s)
  moreover have "outs ! 2 \<in> set outs" "key (outs ! 2) = py_str ''sms_alert''"
    by (simp_all add: o nt_out_fields s)
  ultimately have "deprecated_reason (outs ! 2) = Some (py_str ''Replaced by push notifications'')"
    by blast
  moreover from e have "\<exists>out. out \<in> set outs \<and> key out = py_str ''sms_alert'' \<and> deprecated out \<and>
            deprecated_reason out = Some (py_str ''Replaced by push notifications'')"
    by (auto simp: s)
  ultimately show ?thesis
    using r d by blast
qed

subsection \<open>The principal of the request\<close>

text \<open>
  C9. On a request with no principal attached, \<open>get_current_user\<close> raises an
  \<open>HTTPException\<close> with status 401 and returns no value.
\<close>

theorem get_current_user_unauthorized:
  "state_user request = None \<Longrightarrow>
     get_current_user request
       = Inl (HTTPException 401 (py_str ''Authentication required. Please log in.''))"
  by (simp add: get_current_user_def)

theorem get_current_user_unauthorized_witness:
  "state_user listing_request = None
   \<and> get_current_user listing_request
       = Inl (HTTPException 401 (py_str ''Authentication required. Please log in.''))"
proof -
  have h: "state_user listing_request = None"
    by (simp add: listing_request_def)
  from h get_current_user_unauthorized [OF h] show ?thesis
    by simp
qed

text \<open>
  C10. When the token of a request outside the exempt paths decodes to the empty
  payload, \<open>dispatch\<close> stores the empty payload on the request and lets the request go
  on, and \<open>get_current_user\<close> on that request raises 401 "Authentication required.
  Please log in."; so the listing answers such a request with 401.
\<close>

theorem empty_payload_rejected:
  assumes "\<not> (startswith (path request) (py_str ''/health'') \<or>
         startswith (path request) (py_str ''/docs'') \<or>
         startswith (path request) (py_str ''/openapi.json'') \<or>
         startswith (path request) (py_str ''/redoc''))"
    and "bearer self request = Some creds" and "lower (scheme creds) = ''bearer''"
    and "jwt_decode self (credentials creds) (JWT_SECRET self) [JWT_ALGORITHM self] = Inr []"
  shows "dispatch self request call_next = call_next (request\<lparr> state_user := Some [] \<rparr>)
     \<and> get_current_user (request\<lparr> state_user := Some [] \<rparr>)
          = Inl (HTTPException 401 (py_str ''Authentication required. Please log in.''))
     \<and> (http_method request = py_str ''GET'' \<and> path request = py_str ''/api/notifications/'' \<longrightarrow>
          app self other exc_errors db request
            = JSONResponse 401
                (JObj [(py_str ''detail'', JStr (py_str ''Authentication required. Please log in.''))]))"
  using assms
  by (auto simp: dispatch_def get_current_user_def app_def router_def notifications_route_def
      startswith_def py_str_def)

theorem empty_payload_rejected_witness:
  "dispatch (test_middleware ''empty'') listing_request (router not_found [] (Inr test_rows))
     = router not_found [] (Inr test_rows) (listing_request\<lparr> state_user := Some [] \<rparr>)
   \<and> get_current_user (listing_request\<lparr> state_user := Some [] \<rparr>)
       = Inl (HTTPException 401 (py_str ''Authentication required. Please log in.''))
   \<and> app (test_middleware ''empty'') not_found [] (Inr test_rows) listing_request
       = JSONResponse 401
           (JObj [(py_str ''detail'', JStr (py_str ''Authentication required. Please log in.''))])"
proof -
  have b: "bearer (test_middleware ''empty'') listing_request
             = Some \<lparr> scheme = ''Bearer'', credentials = ''empty'' \<rparr>"
    by (simp add: test_middleware_def)
  have l: "lower (scheme \<lparr> scheme = ''Bearer'', credentials = ''empty'' \<rparr>) = ''bearer''"
    by (simp add: lower_Bearer)
  have d: "jwt_decode (test_middleware ''empty'')
             (credentials \<lparr> scheme = ''Bearer'', credentials = ''empty'' \<rparr>)
             (JWT_SECRET (test_middleware ''empty'')) [JWT_ALGORITHM (test_middleware ''empty'')]
           = Inr []"
    by (simp add: test_middleware_def test_decode_def)
  have m: "http_method listing_request = py_str ''GET''"
    "path listing_request = py_str ''/api/notifications/''"
    by (simp_all add: listing_request_def)
  from empty_payload_rejected [OF listing_request_not_allow_listed b l d,
      of "router not_found [] (Inr test_rows)" not_found "[]" "Inr test_rows"] m
  show ?thesis
    by simp
qed

end
